theory Spec2Isabelle
  imports Complex_Main "HOL-Library.Sublist"
begin

section \<open>Data model of the coastline engine\<close>

text \<open>
  Coordinates are pairs \<open>(lon, lat)\<close> of numbers of a type \<open>'a\<close>. The source computes
  with Python floats. The model fixes neither the numbers nor their arithmetic: \<open>'a\<close>
  is any linearly ordered type with constants 0 and 1 and operations \<open>+\<close>, \<open>-\<close>, \<open>*\<close>
  and \<open>/\<close> of which nothing is assumed, so what is proved for every \<open>'a\<close> holds for
  the rounded operations of doubles as it does for exact ones (the order of the
  finite doubles is linear; NaN is not a coordinate). The concrete scenarios are
  evaluated over the rationals; their inputs are small integers.

  Ids of bounded coastlines are \<open>uuid4\<close> strings in the source; the model draws them
  from a counter, which keeps what the code relies on: every generated id is new.
\<close>

type_synonym 'a Coord = "'a \<times> 'a"
type_synonym 'a Line = "'a Coord list"
type_synonym addr = nat

datatype Side = TOP | RIGHT | BOTTOM | LEFT

record 'a MapDimensions =
  min_lat :: 'a
  min_lon :: 'a
  max_lat :: 'a
  max_lon :: 'a

definition side_clockwise_corners ::
    "'a MapDimensions \<Rightarrow> Side \<Rightarrow> 'a Coord" where
  "side_clockwise_corners md s =
     (case s of
        TOP \<Rightarrow> (max_lon md, max_lat md)
      | RIGHT \<Rightarrow> (max_lon md, min_lat md)
      | BOTTOM \<Rightarrow> (min_lon md, min_lat md)
      | LEFT \<Rightarrow> (min_lon md, max_lat md))"

fun NEXT_SIDE_MAP :: "Side \<Rightarrow> Side" where
  "NEXT_SIDE_MAP TOP = RIGHT"
| "NEXT_SIDE_MAP RIGHT = BOTTOM"
| "NEXT_SIDE_MAP BOTTOM = LEFT"
| "NEXT_SIDE_MAP LEFT = TOP"

record 'a Intersection =
  point :: "'a Coord"
  is_entering :: bool
  side :: Side

record 'a IntersectionWithId = "'a Intersection" +
  bounded_coastline_id :: nat

text \<open>
  Every \<open>raise\<close> of the source is a constructor; \<open>IndexError\<close> and \<open>KeyError\<close> are the
  exceptions Python itself raises on a list index out of range and on a missing
  dictionary key.
\<close>

datatype 'a error =
    NoIntersectionFound
  | AccumulatorNotEmptyOutside
  | BoundedWithoutCrossing
  | UnequalEnteringExiting
  | NoCoastlineForIntersection "'a IntersectionWithId"
  | EnteringWhenLookingForExit
  | NoExitIdToLookFor
  | UnexpectedNestedExit
  | ExitingWhenLookingForEnter
  | IndexError
  | KeyError

section \<open>Segment against boundary\<close>

definition is_inside_map ::
    "('a::{linorder,zero,one,plus,minus,times,inverse}) Coord \<Rightarrow> 'a MapDimensions \<Rightarrow> bool" where
  "is_inside_map p md =
     (min_lon md \<le> fst p \<and> fst p \<le> max_lon md \<and> min_lat md \<le> snd p \<and> snd p \<le> max_lat md)"

datatype 'a segment_result = Inside | Outside | Crossing "'a Intersection"

definition top_candidate ::
    "('a::{linorder,zero,one,plus,minus,times,inverse}) Coord \<Rightarrow> 'a Coord \<Rightarrow> 'a MapDimensions \<Rightarrow> 'a Intersection list" where
  "top_candidate p1 p2 md =
     (let lon1 = fst p1; lat1 = snd p1; lon2 = fst p2; lat2 = snd p2 in
      if lat1 \<noteq> lat2 then
        (let t = (max_lat md - lat1) / (lat2 - lat1) in
         if 0 \<le> t \<and> t \<le> 1 then
           (let lon_intersect = lon1 + t * (lon2 - lon1) in
            if min_lon md \<le> lon_intersect \<and> lon_intersect \<le> max_lon md
            then [\<lparr>point = (lon_intersect, max_lat md), is_entering = (lat1 > lat2), side = TOP\<rparr>]
            else [])
         else [])
      else [])"

definition right_candidate ::
    "('a::{linorder,zero,one,plus,minus,times,inverse}) Coord \<Rightarrow> 'a Coord \<Rightarrow> 'a MapDimensions \<Rightarrow> 'a Intersection list" where
  "right_candidate p1 p2 md =
     (let lon1 = fst p1; lat1 = snd p1; lon2 = fst p2; lat2 = snd p2 in
      if lon1 \<noteq> lon2 then
        (let t = (max_lon md - lon1) / (lon2 - lon1) in
         if 0 \<le> t \<and> t \<le> 1 then
           (let lat_intersect = lat1 + t * (lat2 - lat1) in
            if min_lat md \<le> lat_intersect \<and> lat_intersect \<le> max_lat md
            then [\<lparr>point = (max_lon md, lat_intersect), is_entering = (lon1 > lon2), side = RIGHT\<rparr>]
            else [])
         else [])
      else [])"

definition bottom_candidate ::
    "('a::{linorder,zero,one,plus,minus,times,inverse}) Coord \<Rightarrow> 'a Coord \<Rightarrow> 'a MapDimensions \<Rightarrow> 'a Intersection list" where
  "bottom_candidate p1 p2 md =
     (let lon1 = fst p1; lat1 = snd p1; lon2 = fst p2; lat2 = snd p2 in
      if lat1 \<noteq> lat2 then
        (let t = (min_lat md - lat1) / (lat2 - lat1) in
         if 0 \<le> t \<and> t \<le> 1 then
           (let lon_intersect = lon1 + t * (lon2 - lon1) in
            if min_lon md \<le> lon_intersect \<and> lon_intersect \<le> max_lon md
            then [\<lparr>point = (lon_intersect, min_lat md), is_entering = (lat1 < lat2), side = BOTTOM\<rparr>]
            else [])
         else [])
      else [])"

definition left_candidate ::
    "('a::{linorder,zero,one,plus,minus,times,inverse}) Coord \<Rightarrow> 'a Coord \<Rightarrow> 'a MapDimensions \<Rightarrow> 'a Intersection list" where
  "left_candidate p1 p2 md =
     (let lon1 = fst p1; lat1 = snd p1; lon2 = fst p2; lat2 = snd p2 in
      if lon1 \<noteq> lon2 then
        (let t = (min_lon md - lon1) / (lon2 - lon1) in
         if 0 \<le> t \<and> t \<le> 1 then
           (let lat_intersect = lat1 + t * (lat2 - lat1) in
            if min_lat md \<le> lat_intersect \<and> lat_intersect \<le> max_lat md
            then [\<lparr>point = (min_lon md, lat_intersect), is_entering = (lon1 < lon2), side = LEFT\<rparr>]
            else [])
         else [])
      else [])"

text \<open>The list \<open>intersections\<close> of the source: one block per side, appended in this order.\<close>

definition intersections ::
    "('a::{linorder,zero,one,plus,minus,times,inverse}) Coord \<Rightarrow> 'a Coord \<Rightarrow> 'a MapDimensions \<Rightarrow> 'a Intersection list" where
  "intersections p1 p2 md =
     top_candidate p1 p2 md @ right_candidate p1 p2 md @
     bottom_candidate p1 p2 md @ left_candidate p1 p2 md"

definition sq_distance ::
    "('a::{linorder,zero,one,plus,minus,times,inverse}) Coord \<Rightarrow> 'a Intersection \<Rightarrow> 'a" where
  "sq_distance p1 i =
     (let dx = fst (point i) - fst p1; dy = snd (point i) - snd p1 in dx * dx + dy * dy)"

text \<open>\<open>list.index(v)\<close>: the first position holding \<open>v\<close>; the only call searches for the
  minimum of the same non-empty list, which is always present.\<close>

fun list_index :: "'a list \<Rightarrow> 'a \<Rightarrow> nat" where
  "list_index [] v = 0"
| "list_index (x # xs) v = (if x = v then 0 else Suc (list_index xs v))"

definition find_segment_intersection_with_boundary ::
    "('a::{linorder,zero,one,plus,minus,times,inverse}) Coord \<Rightarrow> 'a Coord \<Rightarrow> 'a MapDimensions \<Rightarrow> 'a error + 'a segment_result" where
  "find_segment_intersection_with_boundary p1 p2 md =
     (let p1_inside = is_inside_map p1 md; p2_inside = is_inside_map p2 md in
      if p1_inside \<and> p2_inside then Inr Inside
      else if \<not> p1_inside \<and> \<not> p2_inside then Inr Outside
      else
        (let ins = intersections p1 p2 md in
         if length ins \<ge> 1 then
           (if length ins > 1 then
              (let distances = map (sq_distance p1) ins in
               Inr (Crossing (ins ! list_index distances (min_list distances))))
            else Inr (Crossing (ins ! 0)))
         else Inl NoIntersectionFound))"

section \<open>Program state\<close>

text \<open>
  Python lists are objects: two names can hold the same list, and \<open>append\<close>, \<open>insert\<close>
  and \<open>sort\<close> change it for both. The store keeps every list that more than one name can
  reach: \<open>events\<close> holds the per-side lists of intersections, \<open>lines\<close> the coordinate
  lists, each under an address. \<open>next_line\<close> is the first address no coordinate list
  lives at yet; \<open>next_id\<close> is the counter behind \<open>generate_bounded_coastline_id\<close>.

  An intersection is a dictionary in the source and is changed in place only by the
  clipper's merge step, which rewrites every intersection carrying one id, so all
  references to one intersection change alike: intersections are values here.

  An \<open>IntersectionMap\<close> is a dictionary from the four sides to list objects; no statement
  of the source assigns to a key of such a dictionary, so the model is the function from
  a side to the address of its list.
\<close>

record 'a heap =
  events :: "addr \<Rightarrow> 'a IntersectionWithId list"
  lines :: "addr \<Rightarrow> 'a Line"
  next_line :: addr
  next_id :: nat

type_synonym IntersectionMap = "Side \<Rightarrow> addr"

text \<open>The module-level dictionary: its four lists are created once, when the module loads.\<close>

definition EMPTY_INTERSECTION_MAP :: "IntersectionMap" where
  "EMPTY_INTERSECTION_MAP s = (case s of TOP \<Rightarrow> 0 | RIGHT \<Rightarrow> 1 | BOTTOM \<Rightarrow> 2 | LEFT \<Rightarrow> 3)"

text \<open>\<open>dict.copy()\<close> is a shallow copy: a new dictionary holding the same list objects.\<close>

definition dict_copy :: "IntersectionMap \<Rightarrow> IntersectionMap" where
  "dict_copy m = (\<lambda>s. m s)"

text \<open>The state of a process that has just loaded the module.\<close>

definition initial_heap :: "'a heap" where
  "initial_heap = \<lparr>events = (\<lambda>a. []), lines = (\<lambda>a. []), next_line = 0, next_id = 0\<rparr>"

definition generate_bounded_coastline_id :: "'a heap \<Rightarrow> nat \<times> 'a heap" where
  "generate_bounded_coastline_id h = (next_id h, h\<lparr>next_id := Suc (next_id h)\<rparr>)"

definition append_event ::
    "addr \<Rightarrow> 'a IntersectionWithId \<Rightarrow> 'a heap \<Rightarrow> 'a heap" where
  "append_event a e h = h\<lparr>events := (events h)(a := events h a @ [e])\<rparr>"

definition new_line :: "'a Line \<Rightarrow> 'a heap \<Rightarrow> addr \<times> 'a heap" where
  "new_line l h =
     (next_line h, h\<lparr>lines := (lines h)(next_line h := l), next_line := Suc (next_line h)\<rparr>)"

definition insert_front ::
    "addr \<Rightarrow> 'a Coord \<Rightarrow> 'a heap \<Rightarrow> 'a heap" where
  "insert_front a p h = h\<lparr>lines := (lines h)(a := p # lines h a)\<rparr>"

definition all_sides :: "Side list" where
  "all_sides = [TOP, RIGHT, BOTTOM, LEFT]"

section \<open>The boundary clipper\<close>

text \<open>
  The variables of one pass of the loop over the complete coastlines. The accumulator
  and the lists in \<open>bounded_coastlines_from_complete_coastline\<close> are values: while the
  clipper runs, each of them is reachable through one name only (the accumulator is
  replaced by a new list as soon as it is stored, and the merge step and the final
  branch store copies).
\<close>

record 'a clip_state =
  does_coastline_cross_boundary :: bool
  bounded_coastlines_from_complete_coastline :: "(nat \<times> 'a Line) list"
  bounded_coastline_accumulator :: "'a Line"
  current_bounded_coastline_id :: nat
  cheap :: "'a heap"

definition with_id :: "'a Intersection \<Rightarrow> nat \<Rightarrow> 'a IntersectionWithId" where
  "with_id i k = \<lparr>point = point i, is_entering = is_entering i, side = side i,
                   bounded_coastline_id = k\<rparr>"

definition clip_segment ::
    "('a::{linorder,zero,one,plus,minus,times,inverse}) MapDimensions \<Rightarrow> IntersectionMap \<Rightarrow> 'a clip_state \<Rightarrow> 'a Coord \<times> 'a Coord \<Rightarrow> 'a error + 'a clip_state" where
  "clip_segment md im cs seg =
     (let p1 = fst seg; p2 = snd seg in
      case find_segment_intersection_with_boundary p1 p2 md of
        Inl e \<Rightarrow> Inl e
      | Inr Inside \<Rightarrow>
          Inr (cs\<lparr>bounded_coastline_accumulator :=
                 (if bounded_coastline_accumulator cs = [] then [p1]
                  else bounded_coastline_accumulator cs) @ [p2]\<rparr>)
      | Inr Outside \<Rightarrow>
          (if bounded_coastline_accumulator cs \<noteq> [] then Inl AccumulatorNotEmptyOutside
           else Inr cs)
      | Inr (Crossing i) \<Rightarrow>
          (let h1 = append_event (im (side i)) (with_id i (current_bounded_coastline_id cs))
                      (cheap cs) in
           if is_entering i then
             Inr (cs\<lparr>does_coastline_cross_boundary := True,
                     bounded_coastline_accumulator := [point i, p2],
                     cheap := h1\<rparr>)
           else
             (let a = (if bounded_coastline_accumulator cs = [] then [p1]
                       else bounded_coastline_accumulator cs) @ [point i];
                  g = generate_bounded_coastline_id h1 in
              Inr (cs\<lparr>does_coastline_cross_boundary := True,
                      bounded_coastlines_from_complete_coastline :=
                        bounded_coastlines_from_complete_coastline cs
                          @ [(current_bounded_coastline_id cs, a)],
                      current_bounded_coastline_id := fst g,
                      bounded_coastline_accumulator := [],
                      cheap := snd g\<rparr>))))"

fun clip_segments ::
    "('a::{linorder,zero,one,plus,minus,times,inverse}) MapDimensions \<Rightarrow> IntersectionMap \<Rightarrow> 'a clip_state \<Rightarrow> ('a Coord \<times> 'a Coord) list \<Rightarrow> 'a error + 'a clip_state" where
  "clip_segments md im cs [] = Inr cs"
| "clip_segments md im cs (seg # segs) =
     (case clip_segment md im cs seg of
        Inl e \<Rightarrow> Inl e
      | Inr cs' \<Rightarrow> clip_segments md im cs' segs)"

definition rewrite_id ::
    "nat \<Rightarrow> nat \<Rightarrow> 'a IntersectionWithId \<Rightarrow> 'a IntersectionWithId" where
  "rewrite_id old new e =
     (if bounded_coastline_id e = old then e\<lparr>bounded_coastline_id := new\<rparr> else e)"

definition rewrite_side ::
    "nat \<Rightarrow> nat \<Rightarrow> IntersectionMap \<Rightarrow> Side \<Rightarrow> 'a heap \<Rightarrow> 'a heap" where
  "rewrite_side old new im s h =
     h\<lparr>events := (events h)(im s := map (rewrite_id old new) (events h (im s)))\<rparr>"

definition rewrite_ids ::
    "nat \<Rightarrow> nat \<Rightarrow> IntersectionMap \<Rightarrow> 'a heap \<Rightarrow> 'a heap" where
  "rewrite_ids old new im h = fold (rewrite_side old new im) all_sides h"

text \<open>
  The code after the loop over the segments (the source's lines 458 to 503).
  \<open>complete_coastline[0]\<close> is read for a chain of at least two points only, and
  \<open>bounded_coastline_accumulator[-1]\<close> under \<open>if bounded_coastline_accumulator\<close>; indexing
  the empty list \<open>bounded_coastlines_from_complete_coastline\<close> raises IndexError.
\<close>

definition finish_chain ::
    "IntersectionMap \<Rightarrow> 'a Line \<Rightarrow> 'a Line list \<Rightarrow> 'a clip_state \<Rightarrow> 'a error + 'a Line list \<times> 'a clip_state" where
  "finish_chain im complete_coastline closed_coastlines cs =
     (if bounded_coastline_accumulator cs \<noteq> [] then
        (if \<not> does_coastline_cross_boundary cs then
           (if bounded_coastlines_from_complete_coastline cs \<noteq> [] then Inl BoundedWithoutCrossing
            else Inr (closed_coastlines @ [bounded_coastline_accumulator cs], cs))
         else if last (bounded_coastline_accumulator cs) = hd complete_coastline then
           (case bounded_coastlines_from_complete_coastline cs of
              [] \<Rightarrow> Inl IndexError
            | first # rest \<Rightarrow>
                Inr (closed_coastlines,
                     cs\<lparr>bounded_coastlines_from_complete_coastline :=
                          (fst first, bounded_coastline_accumulator cs @ tl (snd first)) # rest,
                        cheap := rewrite_ids (current_bounded_coastline_id cs) (fst first) im
                                   (cheap cs)\<rparr>))
         else
           Inr (closed_coastlines,
                cs\<lparr>bounded_coastlines_from_complete_coastline :=
                     bounded_coastlines_from_complete_coastline cs
                       @ [(current_bounded_coastline_id cs, bounded_coastline_accumulator cs)]\<rparr>))
      else Inr (closed_coastlines, cs))"

text \<open>
  \<open>open_coastlines[bounded_coastline_id] = bounded_coastline\<close>: from here on the list is
  shared with the walker, so it gets an address in the store.
\<close>

fun publish ::
    "(nat \<times> 'a Line) list \<Rightarrow> (nat \<rightharpoonup> addr) \<Rightarrow> 'a heap \<Rightarrow> (nat \<rightharpoonup> addr) \<times> 'a heap" where
  "publish [] open_coastlines h = (open_coastlines, h)"
| "publish (b # bs) open_coastlines h =
     (let n = new_line (snd b) h in
      publish bs (open_coastlines(fst b \<mapsto> fst n)) (snd n))"

text \<open>The variables as they are set at the start of a pass (the source's lines 400 to 406).\<close>

definition new_clip_state :: "'a heap \<Rightarrow> 'a clip_state" where
  "new_clip_state h =
     (let g = generate_bounded_coastline_id h in
      \<lparr>does_coastline_cross_boundary = False,
       bounded_coastlines_from_complete_coastline = [],
       bounded_coastline_accumulator = [],
       current_bounded_coastline_id = fst g,
       cheap = snd g\<rparr>)"

definition clip_chain ::
    "('a::{linorder,zero,one,plus,minus,times,inverse}) MapDimensions \<Rightarrow> IntersectionMap \<Rightarrow> 'a Line list \<times> (nat \<rightharpoonup> addr) \<times> 'a heap \<Rightarrow> 'a Line
       \<Rightarrow> 'a error + 'a Line list \<times> (nat \<rightharpoonup> addr) \<times> 'a heap" where
  "clip_chain md im st complete_coastline =
     (let closed_coastlines = fst st; open_coastlines = fst (snd st); h = snd (snd st) in
      if length complete_coastline < 2 then Inr st
      else
        (case clip_segments md im (new_clip_state h)
                (zip complete_coastline (tl complete_coastline)) of
           Inl e \<Rightarrow> Inl e
         | Inr cs \<Rightarrow>
             (case finish_chain im complete_coastline closed_coastlines cs of
                Inl e \<Rightarrow> Inl e
              | Inr r \<Rightarrow>
                  (let p = publish (bounded_coastlines_from_complete_coastline (snd r))
                             open_coastlines (cheap (snd r))
                   in Inr (fst r, fst p, snd p)))))"

fun clip_chains ::
    "('a::{linorder,zero,one,plus,minus,times,inverse}) MapDimensions \<Rightarrow> IntersectionMap \<Rightarrow> 'a Line list \<times> (nat \<rightharpoonup> addr) \<times> 'a heap \<Rightarrow> 'a Line list
       \<Rightarrow> 'a error + 'a Line list \<times> (nat \<rightharpoonup> addr) \<times> 'a heap" where
  "clip_chains md im st [] = Inr st"
| "clip_chains md im st (c # cs) =
     (case clip_chain md im st c of
        Inl e \<Rightarrow> Inl e
      | Inr st' \<Rightarrow> clip_chains md im st' cs)"

text \<open>
  \<open>list.sort(key=..., reverse=...)\<close> works in place and is stable. With \<open>reverse=True\<close>
  it sorts by descending key and still keeps the order of elements with equal keys:
  that is the stable ascending sort of the reversed list, reversed.
\<close>

definition sort_side ::
    "addr \<Rightarrow> ('a IntersectionWithId \<Rightarrow> ('b::linorder)) \<Rightarrow> bool \<Rightarrow> 'a heap \<Rightarrow> 'a heap" where
  "sort_side a k reverse h =
     h\<lparr>events := (events h)
           (a := (if reverse then rev (sort_key k (rev (events h a)))
                  else sort_key k (events h a)))\<rparr>"

definition sort_intersections ::
    "IntersectionMap \<Rightarrow> ('a::{linorder,zero,one,plus,minus,times,inverse}) heap \<Rightarrow> 'a heap" where
  "sort_intersections im h =
     sort_side (im LEFT) (\<lambda>x. snd (point x)) False
       (sort_side (im BOTTOM) (\<lambda>x. fst (point x)) True
          (sort_side (im RIGHT) (\<lambda>x. snd (point x)) True
             (sort_side (im TOP) (\<lambda>x. fst (point x)) False h)))"

definition all_events ::
    "IntersectionMap \<Rightarrow> 'a heap \<Rightarrow> 'a IntersectionWithId list" where
  "all_events im h = concat (map (\<lambda>s. events h (im s)) all_sides)"

definition validate_intersection_map ::
    "IntersectionMap \<Rightarrow> 'a heap \<Rightarrow> 'a error + bool" where
  "validate_intersection_map im h =
     (let entering_count = length (filter is_entering (all_events im h));
          exiting_count = length (filter (\<lambda>i. \<not> is_entering i) (all_events im h))
      in if entering_count \<noteq> exiting_count then Inl UnequalEnteringExiting else Inr True)"

text \<open>
  \<open>complete_coastlines\<close>, the result of \<open>convert_coastline_ways_into_continuous_lines\<close>,
  is a parameter. That function appends a chain to its result only when the chain has
  at least two points, so every chain the clipper receives has at least two points;
  the clipper's own guard \<open>len(complete_coastline) < 2\<close> is kept as the source has it.
\<close>

definition bound_and_sort_complete_coastlines ::
    "('a::{linorder,zero,one,plus,minus,times,inverse}) MapDimensions \<Rightarrow> 'a Line list \<Rightarrow> 'a heap
       \<Rightarrow> 'a error + 'a Line list \<times> (nat \<rightharpoonup> addr) \<times> IntersectionMap \<times> 'a heap" where
  "bound_and_sort_complete_coastlines md complete_coastlines h =
     (let intersection_map = dict_copy EMPTY_INTERSECTION_MAP in
      case clip_chains md intersection_map ([], Map.empty, h) complete_coastlines of
        Inl e \<Rightarrow> Inl e
      | Inr st \<Rightarrow>
          (let h1 = sort_intersections intersection_map (snd (snd st)) in
           case validate_intersection_map intersection_map h1 of
             Inl e \<Rightarrow> Inl e
           | Inr ok \<Rightarrow> Inr (fst st, fst (snd st), intersection_map, h1)))"

section \<open>The closure walker\<close>

fun first_entering :: "'a IntersectionWithId list \<Rightarrow> nat \<Rightarrow> nat option" where
  "first_entering [] k = None"
| "first_entering (x # xs) k = (if is_entering x then Some k else first_entering xs (Suc k))"

fun starting_point_from ::
    "Side list \<Rightarrow> IntersectionMap \<Rightarrow> 'a heap \<Rightarrow> (Side \<times> nat) option" where
  "starting_point_from [] im h = None"
| "starting_point_from (s # ss) im h =
     (case first_entering (events h (im s)) 0 of
        Some i \<Rightarrow> Some (s, i)
      | None \<Rightarrow> starting_point_from ss im h)"

definition find_intersection_map_starting_point ::
    "IntersectionMap \<Rightarrow> 'a heap \<Rightarrow> (Side \<times> nat) option" where
  "find_intersection_map_starting_point im h = starting_point_from all_sides im h"

datatype looking = LookExit | LookEnter

text \<open>
  The local variables of \<open>join_open_coastlines\<close>. The accumulator and the entries of
  \<open>new_closed_coastlines\<close> are addresses: the accumulator can be the very list stored in
  \<open>open_coastlines\<close>, and \<open>insert(0, ...)\<close> then changes that list. The starting index
  is a natural number, as \<open>find_intersection_map_starting_point\<close> returns it.
\<close>

record 'a walker =
  looking_for :: looking
  current_side :: Side
  current_index :: nat
  current_open_coastline_accumulator :: addr
  exit_id_to_look_for :: "nat option"
  entrace_id_to_look_for :: "nat option"
  new_closed_coastlines :: "addr list"
  skipped_intersections :: "IntersectionMap list"
  current_skipped_intersection_map :: IntersectionMap
  current_skipped_intersection_map_is_used :: bool
  wheap :: "'a heap"

text \<open>The branch of the loop taken when the cursor has run past the last event of a side.\<close>

definition end_of_side :: "'a MapDimensions \<Rightarrow> 'a walker \<Rightarrow> 'a walker" where
  "end_of_side md w =
     (if looking_for w = LookExit \<and> entrace_id_to_look_for w = None then
        w\<lparr>wheap := insert_front (current_open_coastline_accumulator w)
                      (side_clockwise_corners md (current_side w)) (wheap w)\<rparr>
      else w)
     \<lparr>current_index := 0, current_side := NEXT_SIDE_MAP (current_side w)\<rparr>"

definition looking_for_exit ::
    "'a walker \<Rightarrow> 'a IntersectionWithId \<Rightarrow> addr \<Rightarrow> 'a error + 'a walker" where
  "looking_for_exit w current_intersection current_intersection_coastline =
     (if is_entering current_intersection then Inl EnteringWhenLookingForExit
      else
        (case exit_id_to_look_for w of
           None \<Rightarrow> Inl NoExitIdToLookFor
         | Some x \<Rightarrow>
             if bounded_coastline_id current_intersection = x then
               (if lines (wheap w) current_intersection_coastline = [] then Inl IndexError
                else
                  (let h1 = insert_front (current_open_coastline_accumulator w)
                              (last (lines (wheap w) current_intersection_coastline)) (wheap w);
                       n = new_line [] h1
                   in Inr (w\<lparr>new_closed_coastlines :=
                                new_closed_coastlines w @ [current_open_coastline_accumulator w],
                              exit_id_to_look_for := None,
                              current_open_coastline_accumulator := fst n,
                              looking_for := LookEnter,
                              current_index := current_index w + 1,
                              wheap := snd n\<rparr>)))
             else
               (case entrace_id_to_look_for w of
                  None \<Rightarrow>
                    (let n = new_line
                               (lines (wheap w) current_intersection_coastline
                                  @ lines (wheap w) (current_open_coastline_accumulator w))
                               (wheap w)
                     in Inr (w\<lparr>entrace_id_to_look_for :=
                                  Some (bounded_coastline_id current_intersection),
                                current_open_coastline_accumulator := fst n,
                                looking_for := LookEnter,
                                current_index := current_index w + 1,
                                wheap := snd n\<rparr>))
                | Some y \<Rightarrow> Inl UnexpectedNestedExit)))"

definition looking_for_enter ::
    "'a walker \<Rightarrow> 'a IntersectionWithId \<Rightarrow> addr \<Rightarrow> 'a error + 'a walker" where
  "looking_for_enter w current_intersection current_intersection_coastline =
     (if \<not> is_entering current_intersection then Inl ExitingWhenLookingForEnter
      else
        (case exit_id_to_look_for w of
           None \<Rightarrow>
             Inr (w\<lparr>exit_id_to_look_for := Some (bounded_coastline_id current_intersection),
                    current_open_coastline_accumulator := current_intersection_coastline,
                    current_index := current_index w + 1,
                    looking_for := LookExit\<rparr>)
         | Some x \<Rightarrow>
             if Some (bounded_coastline_id current_intersection) = entrace_id_to_look_for w then
               Inr ((if current_skipped_intersection_map_is_used w then
                       w\<lparr>skipped_intersections :=
                            skipped_intersections w @ [current_skipped_intersection_map w],
                          current_skipped_intersection_map := dict_copy EMPTY_INTERSECTION_MAP\<rparr>
                     else w)
                    \<lparr>entrace_id_to_look_for := None,
                     looking_for := LookExit,
                     current_index := current_index w + 1\<rparr>)
             else
               Inr (w\<lparr>wheap := append_event
                                  (current_skipped_intersection_map w (current_side w))
                                  current_intersection (wheap w),
                      current_skipped_intersection_map_is_used := True,
                      current_index := current_index w + 1\<rparr>)))"

text \<open>One pass through the body of the \<open>while\<close> loop.\<close>

definition loop_body ::
    "(nat \<rightharpoonup> addr) \<Rightarrow> IntersectionMap \<Rightarrow> 'a MapDimensions \<Rightarrow> 'a walker \<Rightarrow> 'a error + 'a walker" where
  "loop_body open_coastlines im md w =
     (let side_events = events (wheap w) (im (current_side w)) in
      if current_index w \<ge> length side_events then Inr (end_of_side md w)
      else
        (let current_intersection = side_events ! current_index w in
         case open_coastlines (bounded_coastline_id current_intersection) of
           None \<Rightarrow> Inl (NoCoastlineForIntersection current_intersection)
         | Some c \<Rightarrow>
             (case looking_for w of
                LookExit \<Rightarrow> looking_for_exit w current_intersection c
              | LookEnter \<Rightarrow> looking_for_enter w current_intersection c)))"

text \<open>
  The \<open>while\<close> loop, with fuel: \<open>None\<close> says that the fuel ran out before the cursor came
  back to the starting point.
\<close>

fun walk_loop ::
    "nat \<Rightarrow> (nat \<rightharpoonup> addr) \<Rightarrow> IntersectionMap \<Rightarrow> Side \<times> nat \<Rightarrow> 'a MapDimensions \<Rightarrow> 'a walker
       \<Rightarrow> ('a error + 'a walker) option" where
  "walk_loop 0 open_coastlines im starting_point md w = None"
| "walk_loop (Suc n) open_coastlines im starting_point md w =
     (if current_side w \<noteq> fst starting_point \<or> current_index w \<noteq> snd starting_point then
        (case loop_body open_coastlines im md w of
           Inl e \<Rightarrow> Some (Inl e)
         | Inr w' \<Rightarrow> walk_loop n open_coastlines im starting_point md w')
      else Some (Inr w))"

text \<open>The loop over \<open>skipped_intersections\<close>; \<open>rec\<close> is the recursive call.\<close>

fun process_skipped ::
    "(IntersectionMap \<Rightarrow> Side \<times> nat \<Rightarrow> 'a heap \<Rightarrow> ('a error + addr list \<times> 'a heap) option)
       \<Rightarrow> IntersectionMap list \<Rightarrow> addr list \<Rightarrow> 'a heap \<Rightarrow> ('a error + addr list \<times> 'a heap) option" where
  "process_skipped rec [] new_closed h = Some (Inr (new_closed, h))"
| "process_skipped rec (m # ms) new_closed h =
     (case find_intersection_map_starting_point m h of
        None \<Rightarrow> process_skipped rec ms new_closed h
      | Some sp \<Rightarrow>
          (case rec m sp h of
             None \<Rightarrow> None
           | Some (Inl e) \<Rightarrow> Some (Inl e)
           | Some (Inr r) \<Rightarrow> process_skipped rec ms (new_closed @ fst r) (snd r)))"

definition initial_walker ::
    "Side \<times> nat \<Rightarrow> nat \<Rightarrow> addr \<Rightarrow> 'a heap \<Rightarrow> 'a walker" where
  "initial_walker starting_point starting_coastline_id a h =
     \<lparr>looking_for = LookExit,
      current_side = fst starting_point,
      current_index = snd starting_point + 1,
      current_open_coastline_accumulator = a,
      exit_id_to_look_for = Some starting_coastline_id,
      entrace_id_to_look_for = None,
      new_closed_coastlines = [],
      skipped_intersections = [],
      current_skipped_intersection_map = dict_copy EMPTY_INTERSECTION_MAP,
      current_skipped_intersection_map_is_used = False,
      wheap = h\<rparr>"

text \<open>
  \<open>join_open_coastlines\<close>, with fuel for the loop and for the depth of the recursion.
  The result is the list of the addresses of the closed coastlines, and the store.
\<close>

primrec join_open_coastlines ::
    "nat \<Rightarrow> (nat \<rightharpoonup> addr) \<Rightarrow> 'a MapDimensions \<Rightarrow> IntersectionMap \<Rightarrow> Side \<times> nat \<Rightarrow> 'a heap
       \<Rightarrow> ('a error + addr list \<times> 'a heap) option" where
  "join_open_coastlines 0 open_coastlines md = (\<lambda>im starting_point h. None)"
| "join_open_coastlines (Suc n) open_coastlines md =
     (\<lambda>im starting_point h.
        if snd starting_point \<ge> length (events h (im (fst starting_point))) then Some (Inl IndexError)
        else
          (let starting_coastline_id =
                 bounded_coastline_id (events h (im (fst starting_point)) ! snd starting_point)
           in case open_coastlines starting_coastline_id of
                None \<Rightarrow> Some (Inl KeyError)
              | Some a \<Rightarrow>
                  (case walk_loop n open_coastlines im starting_point md
                          (initial_walker starting_point starting_coastline_id a h) of
                     None \<Rightarrow> None
                   | Some (Inl e) \<Rightarrow> Some (Inl e)
                   | Some (Inr w) \<Rightarrow>
                       process_skipped (join_open_coastlines n open_coastlines md)
                         (skipped_intersections w) (new_closed_coastlines w) (wheap w))))"

section \<open>The whole core\<close>

text \<open>
  Lines 125 to 136 of \<open>render_coastline_and_background_water\<close>: clip, find the starting
  point, walk, concatenate. The coordinate lists are read from the store when the
  function returns, as the drawing loop reads them.
\<close>

definition all_coastlines ::
    "nat \<Rightarrow> ('a::{linorder,zero,one,plus,minus,times,inverse}) MapDimensions \<Rightarrow> 'a Line list \<Rightarrow> 'a heap \<Rightarrow> ('a error + 'a Line list \<times> 'a heap) option" where
  "all_coastlines fuel md complete_coastlines h =
     (case bound_and_sort_complete_coastlines md complete_coastlines h of
        Inl e \<Rightarrow> Some (Inl e)
      | Inr r \<Rightarrow>
          (let closed_coastlines = fst r; open_coastlines = fst (snd r);
               intersection_map = fst (snd (snd r)); h1 = snd (snd (snd r))
           in case find_intersection_map_starting_point intersection_map h1 of
                None \<Rightarrow> Some (Inr (closed_coastlines, h1))
              | Some starting_point \<Rightarrow>
                  (case join_open_coastlines fuel open_coastlines md intersection_map
                          starting_point h1 of
                     None \<Rightarrow> None
                   | Some (Inl e) \<Rightarrow> Some (Inl e)
                   | Some (Inr j) \<Rightarrow>
                       Some (Inr (closed_coastlines @ map (lines (snd j)) (fst j), snd j)))))"

section \<open>Vocabulary of the properties\<close>

text \<open>The rectangle of the concrete scenarios: longitude and latitude from 0 to 10.\<close>

definition scenario_rectangle :: "rat MapDimensions" where
  "scenario_rectangle = \<lparr>min_lat = 0, min_lon = 0, max_lat = 10, max_lon = 10\<rparr>"

text \<open>What a caller sees of a run: the error, or the list of land polygons.\<close>

definition polygons ::
    "('a error + 'a Line list \<times> 'a heap) option \<Rightarrow> ('a error + 'a Line list) option" where
  "polygons r = map_option (map_sum id fst) r"

text \<open>
  What the clipper returns, read from the store: the closed coastlines, the open
  coastlines as pairs of id and coordinates (every id comes from the counter, so the
  ids below \<open>next_id\<close> are all there are), and the events of the four sides.
\<close>

definition clipped ::
    "'a error + 'a Line list \<times> (nat \<rightharpoonup> addr) \<times> IntersectionMap \<times> 'a heap
       \<Rightarrow> 'a error + 'a Line list \<times> (nat \<times> 'a Line) list \<times> 'a IntersectionWithId list list" where
  "clipped r =
     map_sum id
       (\<lambda>r. (fst r,
             concat (map (\<lambda>k. case fst (snd r) k of
                                 None \<Rightarrow> []
                               | Some a \<Rightarrow> [(k, lines (snd (snd (snd r))) a)])
                       [0..<next_id (snd (snd (snd r)))]),
             map (\<lambda>s. events (snd (snd (snd r))) (fst (snd (snd r)) s)) all_sides)) r"

text \<open>
  The crossing computation in the words of the specification, one rule for all sides.
  A side lies on the line where one coordinate is constant (\<open>side_line\<close>); \<open>across\<close> is
  that coordinate of a point and \<open>along\<close> is the other one, whose range on the side is
  the side's extent. For the segment \<open>p1 + t * (p2 - p1)\<close> the parameter at the line is
  computed from the \<open>across\<close> coordinates; the intersection is accepted when the segment
  is not parallel to the line, the parameter is in [0,1] and the \<open>along\<close> coordinate at
  the parameter is within the extent. The event is entering when the segment moves from
  the outer side of the line to the inner one.
\<close>

definition side_line :: "'a MapDimensions \<Rightarrow> Side \<Rightarrow> 'a" where
  "side_line md s =
     (case s of TOP \<Rightarrow> max_lat md | RIGHT \<Rightarrow> max_lon md | BOTTOM \<Rightarrow> min_lat md | LEFT \<Rightarrow> min_lon md)"

definition across :: "Side \<Rightarrow> 'a Coord \<Rightarrow> 'a" where
  "across s p = (if s = TOP \<or> s = BOTTOM then snd p else fst p)"

definition along :: "Side \<Rightarrow> 'a Coord \<Rightarrow> 'a" where
  "along s p = (if s = TOP \<or> s = BOTTOM then fst p else snd p)"

definition extent_low :: "'a MapDimensions \<Rightarrow> Side \<Rightarrow> 'a" where
  "extent_low md s = (if s = TOP \<or> s = BOTTOM then min_lon md else min_lat md)"

definition extent_high :: "'a MapDimensions \<Rightarrow> Side \<Rightarrow> 'a" where
  "extent_high md s = (if s = TOP \<or> s = BOTTOM then max_lon md else max_lat md)"

definition parameter_at ::
    "('a::{linorder,zero,one,plus,minus,times,inverse}) MapDimensions \<Rightarrow> Side \<Rightarrow> 'a Coord \<Rightarrow> 'a Coord \<Rightarrow> 'a" where
  "parameter_at md s p1 p2 = (side_line md s - across s p1) / (across s p2 - across s p1)"

definition along_at ::
    "('a::{linorder,zero,one,plus,minus,times,inverse}) MapDimensions \<Rightarrow> Side \<Rightarrow> 'a Coord \<Rightarrow> 'a Coord \<Rightarrow> 'a" where
  "along_at md s p1 p2 = along s p1 + parameter_at md s p1 p2 * (along s p2 - along s p1)"

definition accepts ::
    "('a::{linorder,zero,one,plus,minus,times,inverse}) MapDimensions \<Rightarrow> Side \<Rightarrow> 'a Coord \<Rightarrow> 'a Coord \<Rightarrow> bool" where
  "accepts md s p1 p2 =
     (across s p1 \<noteq> across s p2
      \<and> 0 \<le> parameter_at md s p1 p2 \<and> parameter_at md s p1 p2 \<le> 1
      \<and> extent_low md s \<le> along_at md s p1 p2 \<and> along_at md s p1 p2 \<le> extent_high md s)"

definition moves_inward :: "Side \<Rightarrow> ('a::linorder) Coord \<Rightarrow> 'a Coord \<Rightarrow> bool" where
  "moves_inward s p1 p2 =
     (if s = TOP \<or> s = RIGHT then across s p1 > across s p2 else across s p1 < across s p2)"

definition candidate_on ::
    "('a::{linorder,zero,one,plus,minus,times,inverse}) MapDimensions \<Rightarrow> Side \<Rightarrow> 'a Coord \<Rightarrow> 'a Coord
       \<Rightarrow> 'a Intersection" where
  "candidate_on md s p1 p2 =
     \<lparr>point = (if s = TOP \<or> s = BOTTOM then (along_at md s p1 p2, side_line md s)
               else (side_line md s, along_at md s p1 p2)),
      is_entering = moves_inward s p1 p2,
      side = s\<rparr>"

text \<open>The accepted candidates, in the order TOP, RIGHT, BOTTOM, LEFT.\<close>

definition accepted_candidates ::
    "('a::{linorder,zero,one,plus,minus,times,inverse}) MapDimensions \<Rightarrow> 'a Coord \<Rightarrow> 'a Coord
       \<Rightarrow> 'a Intersection list" where
  "accepted_candidates md p1 p2 =
     map (\<lambda>s. candidate_on md s p1 p2) (filter (\<lambda>s. accepts md s p1 p2) [TOP, RIGHT, BOTTOM, LEFT])"

text \<open>The squared distance between two points.\<close>

definition squared_distance :: "('a::{plus,minus,times}) Coord \<Rightarrow> 'a Coord \<Rightarrow> 'a" where
  "squared_distance p q =
     (fst q - fst p) * (fst q - fst p) + (snd q - snd p) * (snd q - snd p)"

text \<open>
  Between two stores, every coordinate list that exists in the first is, in the second,
  the same list with points put in front of it, and no address is given up.
\<close>

definition only_prepended :: "'a heap \<Rightarrow> 'a heap \<Rightarrow> bool" where
  "only_prepended h h' =
     (next_line h \<le> next_line h' \<and> (\<forall>a<next_line h. suffix (lines h a) (lines h' a)))"

text \<open>
  An input of four open chains: each crosses TOP once, at longitudes 1 to 4, going out,
  in, out, in.
\<close>

definition deferring_input :: "rat Line list" where
  "deferring_input = [[(1, 5), (1, 12)], [(2, 12), (2, 5)], [(3, 5), (3, 12)], [(4, 12), (4, 5)]]"

text \<open>
  A walker that looks for an entrance on TOP while every event from the cursor on is the
  entering event \<open>e\<close>, whose id is not the awaited one, and while the map for skipped
  intersections writes to the list the cursor reads.
\<close>

definition stuck :: "'a IntersectionWithId \<Rightarrow> 'a walker \<Rightarrow> bool" where
  "stuck e w =
     (looking_for w = LookEnter \<and> current_side w = TOP \<and> is_entering e
      \<and> exit_id_to_look_for w \<noteq> None
      \<and> entrace_id_to_look_for w \<noteq> Some (bounded_coastline_id e)
      \<and> current_skipped_intersection_map w TOP = EMPTY_INTERSECTION_MAP TOP
      \<and> 3 \<le> current_index w
      \<and> current_index w < length (events (wheap w) (EMPTY_INTERSECTION_MAP TOP))
      \<and> set (drop (current_index w) (events (wheap w) (EMPTY_INTERSECTION_MAP TOP))) \<subseteq> {e})"

text \<open>
  How often an id occurs on an exiting event, and on an entering event, of an
  intersection map.
\<close>

definition exit_count ::
    "nat \<Rightarrow> IntersectionMap \<Rightarrow> 'a heap \<Rightarrow> nat" where
  "exit_count k im h =
     length (filter (\<lambda>e. bounded_coastline_id e = k \<and> \<not> is_entering e) (all_events im h))"

definition entering_count ::
    "nat \<Rightarrow> IntersectionMap \<Rightarrow> 'a heap \<Rightarrow> nat" where
  "entering_count k im h =
     length (filter (\<lambda>e. bounded_coastline_id e = k \<and> is_entering e) (all_events im h))"



section \<open>Choosing the crossing point\<close>

lemma list_index_props:
  "v \<in> set xs \<Longrightarrow>
     list_index xs v < length xs \<and> xs ! list_index xs v = v \<and> (\<forall>j<list_index xs v. xs ! j \<noteq> v)"
  by (induction xs) (auto simp: less_Suc_eq_0_disj)

lemma min_list_in: "xs \<noteq> [] \<Longrightarrow> min_list (xs::('a::linorder) list) \<in> set xs"
  by (simp add: min_list_Min)

lemma min_list_le: "x \<in> set xs \<Longrightarrow> min_list (xs::('a::linorder) list) \<le> x"
  by (cases "xs = []") (simp_all add: min_list_Min)

lemma find_crossing:
  assumes "is_inside_map p1 md \<noteq> is_inside_map p2 md"
  shows "find_segment_intersection_with_boundary p1 p2 md =
     (if intersections p1 p2 md = [] then Inl NoIntersectionFound
      else Inr (Crossing (intersections p1 p2 md !
             list_index (map (sq_distance p1) (intersections p1 p2 md))
               (min_list (map (sq_distance p1) (intersections p1 p2 md))))))"
proof (cases "intersections p1 p2 md")
  case Nil
  with assms show ?thesis by (auto simp: find_segment_intersection_with_boundary_def)
next
  case (Cons c cs)
  with assms show ?thesis
    by (cases cs) (auto simp: find_segment_intersection_with_boundary_def Let_def)
qed

lemmas crossing_rule = accepts_def candidate_on_def parameter_at_def along_at_def side_line_def
  across_def along_def extent_low_def extent_high_def moves_inward_def

lemma top_candidate_eq:
  "top_candidate p1 p2 md = (if accepts md TOP p1 p2 then [candidate_on md TOP p1 p2] else [])"
  by (simp add: top_candidate_def crossing_rule Let_def)

lemma right_candidate_eq:
  "right_candidate p1 p2 md = (if accepts md RIGHT p1 p2 then [candidate_on md RIGHT p1 p2] else [])"
  by (simp add: right_candidate_def crossing_rule Let_def)

lemma bottom_candidate_eq:
  "bottom_candidate p1 p2 md = (if accepts md BOTTOM p1 p2 then [candidate_on md BOTTOM p1 p2] else [])"
  by (simp add: bottom_candidate_def crossing_rule Let_def)

lemma left_candidate_eq:
  "left_candidate p1 p2 md = (if accepts md LEFT p1 p2 then [candidate_on md LEFT p1 p2] else [])"
  by (simp add: left_candidate_def crossing_rule Let_def)

lemma intersections_accepted: "intersections p1 p2 md = accepted_candidates md p1 p2"
  by (simp add: intersections_def accepted_candidates_def top_candidate_eq right_candidate_eq
        bottom_candidate_eq left_candidate_eq)

lemma sq_distance_eq: "sq_distance p1 c = squared_distance p1 (point c)"
  by (simp add: sq_distance_def squared_distance_def Let_def)

lemma every_side_listed: "s \<in> set [TOP, RIGHT, BOTTOM, LEFT]"
  by (cases s) simp_all

lemma no_candidate_iff:
  "accepted_candidates md p1 p2 = [] \<longleftrightarrow> (\<forall>s. \<not> accepts md s p1 p2)"
  unfolding accepted_candidates_def map_is_Nil_conv filter_empty_conv
  using every_side_listed by blast

text \<open>
  Claim C10. For a segment with one endpoint inside the rectangle and the other outside,
  the candidates that \<open>find_segment_intersection_with_boundary\<close> collects are exactly the
  accepted ones of the specification's rule (parameter in [0,1], coordinate along the
  side within the side's extent), in the order TOP, RIGHT, BOTTOM, LEFT. The function
  raises exactly when no side accepts. Otherwise it returns the accepted candidate at
  the first position of least squared distance from \<open>p1\<close>: no candidate is nearer and
  every earlier one is strictly farther. Nothing is assumed of the arithmetic, so this
  holds for the values the doubles compute.
\<close>

theorem nearest_candidate_is_returned:
  assumes "is_inside_map p1 md \<noteq> is_inside_map p2 md"
  shows "intersections p1 p2 md = accepted_candidates md p1 p2
       \<and> (find_segment_intersection_with_boundary p1 p2 md = Inl NoIntersectionFound
            \<longleftrightarrow> (\<forall>s. \<not> accepts md s p1 p2))
       \<and> ((\<exists>s. accepts md s p1 p2) \<longrightarrow>
            (\<exists>i<length (accepted_candidates md p1 p2).
               find_segment_intersection_with_boundary p1 p2 md
                 = Inr (Crossing (accepted_candidates md p1 p2 ! i))
               \<and> (\<forall>j<length (accepted_candidates md p1 p2).
                     squared_distance p1 (point (accepted_candidates md p1 p2 ! i))
                       \<le> squared_distance p1 (point (accepted_candidates md p1 p2 ! j)))
               \<and> (\<forall>j<i. squared_distance p1 (point (accepted_candidates md p1 p2 ! i))
                            < squared_distance p1 (point (accepted_candidates md p1 p2 ! j)))))"
proof -
  let ?cs = "accepted_candidates md p1 p2"
  let ?ds = "map (sq_distance p1) ?cs"
  let ?i = "list_index ?ds (min_list ?ds)"
  have eq: "find_segment_intersection_with_boundary p1 p2 md =
     (if ?cs = [] then Inl NoIntersectionFound else Inr (Crossing (?cs ! ?i)))"
    using find_crossing[OF assms] by (simp add: intersections_accepted)
  have sel: "?i < length ?cs
       \<and> (\<forall>j<length ?cs. sq_distance p1 (?cs ! ?i) \<le> sq_distance p1 (?cs ! j))
       \<and> (\<forall>j<?i. sq_distance p1 (?cs ! ?i) < sq_distance p1 (?cs ! j))" if ne: "?cs \<noteq> []"
  proof -
    from ne have m: "min_list ?ds \<in> set ?ds" by (intro min_list_in) simp
    from list_index_props[OF m]
    have i: "?i < length ?ds" and v: "?ds ! ?i = min_list ?ds"
      and f: "\<forall>j<?i. ?ds ! j \<noteq> min_list ?ds"
      by auto
    have le: "min_list ?ds \<le> ?ds ! j" if "j < length ?ds" for j
      using that by (intro min_list_le) simp
    have a: "\<forall>j<length ?cs. sq_distance p1 (?cs ! ?i) \<le> sq_distance p1 (?cs ! j)"
      using i v le by (auto simp: nth_map)
    have b: "\<forall>j<?i. sq_distance p1 (?cs ! ?i) < sq_distance p1 (?cs ! j)"
    proof (intro allI impI)
      fix j assume j: "j < ?i"
      then have jl: "j < length ?ds" using i by simp
      from f j have "?ds ! j \<noteq> min_list ?ds" by blast
      with le[OF jl] have "min_list ?ds < ?ds ! j" by simp
      with v i jl show "sq_distance p1 (?cs ! ?i) < sq_distance p1 (?cs ! j)"
        by (simp add: nth_map)
    qed
    from i a b show ?thesis by simp
  qed
  have raise: "find_segment_intersection_with_boundary p1 p2 md = Inl NoIntersectionFound
            \<longleftrightarrow> (\<forall>s. \<not> accepts md s p1 p2)"
    using eq no_candidate_iff[of md p1 p2] by (simp split: if_splits)
  have ret: "\<exists>i<length ?cs.
               find_segment_intersection_with_boundary p1 p2 md = Inr (Crossing (?cs ! i))
               \<and> (\<forall>j<length ?cs. squared_distance p1 (point (?cs ! i))
                       \<le> squared_distance p1 (point (?cs ! j)))
               \<and> (\<forall>j<i. squared_distance p1 (point (?cs ! i))
                            < squared_distance p1 (point (?cs ! j)))"
    if "\<exists>s. accepts md s p1 p2"
  proof -
    from that have ne: "?cs \<noteq> []" using no_candidate_iff[of md p1 p2] by blast
    from sel[OF ne] eq ne show ?thesis
      by (intro exI[of _ ?i]) (simp add: sq_distance_eq)
  qed
  from intersections_accepted raise ret show ?thesis by blast
qed

theorem nearest_candidate_is_returned_witness:
  "is_inside_map (10, 5) scenario_rectangle \<noteq> is_inside_map (5, 12) scenario_rectangle
   \<and> accepted_candidates scenario_rectangle (10, 5) (5, 12)
       = [\<lparr>point = (45 / 7, 10), is_entering = False, side = TOP\<rparr>,
          \<lparr>point = (10, 5), is_entering = True, side = RIGHT\<rparr>]
   \<and> find_segment_intersection_with_boundary (10, 5) (5, 12) scenario_rectangle
       = Inr (Crossing \<lparr>point = (10, 5), is_entering = True, side = RIGHT\<rparr>)
   \<and> is_inside_map (8, 8) scenario_rectangle \<noteq> is_inside_map (12, 12) scenario_rectangle
   \<and> accepted_candidates scenario_rectangle (8, 8) (12, 12)
       = [\<lparr>point = (10, 10), is_entering = False, side = TOP\<rparr>,
          \<lparr>point = (10, 10), is_entering = False, side = RIGHT\<rparr>]
   \<and> find_segment_intersection_with_boundary (8, 8) (12, 12) scenario_rectangle
       = Inr (Crossing \<lparr>point = (10, 10), is_entering = False, side = TOP\<rparr>)"
proof -
  have h1: "is_inside_map (10, 5) scenario_rectangle \<noteq> is_inside_map (5, 12) scenario_rectangle"
    by (simp add: is_inside_map_def scenario_rectangle_def)
  have h2: "is_inside_map (8, 8) scenario_rectangle \<noteq> is_inside_map (12, 12) scenario_rectangle"
    by (simp add: is_inside_map_def scenario_rectangle_def)
  have i1: "intersections (10, 5) (5, 12) scenario_rectangle
       = [\<lparr>point = (45 / 7, 10), is_entering = False, side = TOP\<rparr>,
          \<lparr>point = (10, 5), is_entering = True, side = RIGHT\<rparr>]"
    by (simp add: intersections_def top_candidate_def right_candidate_def bottom_candidate_def
          left_candidate_def scenario_rectangle_def Let_def)
  have i2: "intersections (8, 8) (12, 12) scenario_rectangle
       = [\<lparr>point = (10, 10), is_entering = False, side = TOP\<rparr>,
          \<lparr>point = (10, 10), is_entering = False, side = RIGHT\<rparr>]"
    by (simp add: intersections_def top_candidate_def right_candidate_def bottom_candidate_def
          left_candidate_def scenario_rectangle_def Let_def)
  from nearest_candidate_is_returned [OF h1] i1
  have a1: "accepted_candidates scenario_rectangle (10, 5) (5, 12)
       = [\<lparr>point = (45 / 7, 10), is_entering = False, side = TOP\<rparr>,
          \<lparr>point = (10, 5), is_entering = True, side = RIGHT\<rparr>]"
    by simp
  from nearest_candidate_is_returned [OF h2] i2
  have a2: "accepted_candidates scenario_rectangle (8, 8) (12, 12)
       = [\<lparr>point = (10, 10), is_entering = False, side = TOP\<rparr>,
          \<lparr>point = (10, 10), is_entering = False, side = RIGHT\<rparr>]"
    by simp
  have f1: "find_segment_intersection_with_boundary (10, 5) (5, 12) scenario_rectangle
       = Inr (Crossing \<lparr>point = (10, 5), is_entering = True, side = RIGHT\<rparr>)"
    using h1 i1 by (simp add: find_segment_intersection_with_boundary_def sq_distance_def Let_def)
  have f2: "find_segment_intersection_with_boundary (8, 8) (12, 12) scenario_rectangle
       = Inr (Crossing \<lparr>point = (10, 10), is_entering = False, side = TOP\<rparr>)"
    using h2 i2 by (simp add: find_segment_intersection_with_boundary_def sq_distance_def Let_def)
  from h1 a1 f1 h2 a2 f2 show ?thesis by simp
qed

section \<open>Validation of the intersection map\<close>

text \<open>
  Claim C4, as the code has it. Validation compares the number of entering events with
  the number of exiting events, both summed over the four sides. When they differ it
  raises the one error of this check, which has no argument and so says nothing about
  sides; when they are equal it returns \<open>True\<close>.
\<close>

theorem validate_compares_totals:
  "validate_intersection_map im h =
     (if (\<Sum>s\<leftarrow>all_sides. length (filter is_entering (events h (im s))))
         \<noteq> (\<Sum>s\<leftarrow>all_sides. length (filter (\<lambda>i. \<not> is_entering i) (events h (im s))))
      then Inl UnequalEnteringExiting else Inr True)"
  by (simp add: validate_intersection_map_def all_events_def all_sides_def)

text \<open>
  The claim as stated fails: one exiting event too many on TOP and one too many on RIGHT
  raise the same error, so the error does not name the side.
\<close>

theorem validate_error_names_no_side:
  "validate_intersection_map EMPTY_INTERSECTION_MAP
       (append_event (EMPTY_INTERSECTION_MAP TOP)
          \<lparr>point = (3::rat, 10), is_entering = False, side = TOP, bounded_coastline_id = 0\<rparr>
          initial_heap)
     = Inl UnequalEnteringExiting
   \<and> validate_intersection_map EMPTY_INTERSECTION_MAP
       (append_event (EMPTY_INTERSECTION_MAP RIGHT)
          \<lparr>point = (10::rat, 3), is_entering = False, side = RIGHT, bounded_coastline_id = 0\<rparr>
          initial_heap)
     = Inl UnequalEnteringExiting"
  by (simp add: validate_intersection_map_def all_events_def all_sides_def
        EMPTY_INTERSECTION_MAP_def append_event_def initial_heap_def)

section \<open>Corners on the perimeter walk\<close>

lemma corner_wrap_run:
  "polygons (all_coastlines 12 scenario_rectangle [[(8, 12), (8, 3), (12, 3)]] initial_heap)
     = Some (Inr [[(10, 3), (10, 10), (8, 10), (8, 3), (10, 3)]])"
  by code_simp



section \<open>A chain that leaves and re-enters through TOP\<close>

lemma top_crossing_clip:
  "clipped (bound_and_sort_complete_coastlines scenario_rectangle
              [[(3, 5), (3, 12), (7, 12), (7, 5)]] initial_heap)
     = Inr ([],
            [(0, [(3, 5), (3, 10)]), (1, [(7, 10), (7, 5)])],
            [[\<lparr>point = (3, 10), is_entering = False, side = TOP, bounded_coastline_id = 0\<rparr>,
              \<lparr>point = (7, 10), is_entering = True, side = TOP, bounded_coastline_id = 1\<rparr>],
             [], [], []])"
  by code_simp

lemma top_crossing_run:
  "polygons (all_coastlines 12 scenario_rectangle [[(3, 5), (3, 12), (7, 12), (7, 5)]] initial_heap)
     = Some (Inr [])"
  by code_simp

text \<open>
  Claim C1, as the code has it. For the chain [(3,5),(3,12),(7,12),(7,5)] in the
  rectangle from 0 to 10 the clipper returns no closed coastline and two open
  coastlines: [(3,5),(3,10)] under the first id, stored at the exit through TOP, and
  [(7,10),(7,5)] under the second id, the accumulator left after the last segment. The
  intersection map has two events, both on TOP: (3,10) exiting with the first id and
  (7,10) entering with the second. The walker, started at the entering event, comes
  back to it without closing a polygon: the core returns the empty list.
\<close>

theorem top_crossing_gives_two_subchains:
  "clipped (bound_and_sort_complete_coastlines scenario_rectangle
              [[(3, 5), (3, 12), (7, 12), (7, 5)]] initial_heap)
     = Inr ([],
            [(0, [(3, 5), (3, 10)]), (1, [(7, 10), (7, 5)])],
            [[\<lparr>point = (3, 10), is_entering = False, side = TOP, bounded_coastline_id = 0\<rparr>,
              \<lparr>point = (7, 10), is_entering = True, side = TOP, bounded_coastline_id = 1\<rparr>],
             [], [], []])
   \<and> polygons (all_coastlines 12 scenario_rectangle [[(3, 5), (3, 12), (7, 12), (7, 5)]] initial_heap)
     = Some (Inr [])"
  using top_crossing_clip top_crossing_run by simp

text \<open>
  The claim as stated fails: the open coastlines are not the single chain
  [(3,10),(3,5),(7,5),(7,10)], and the run does not return the polygon
  [(3,10),(3,5),(7,5),(7,10),(3,10)].
\<close>

theorem top_crossing_not_one_subchain:
  "map_sum id (\<lambda>r. map snd (fst (snd r)))
      (clipped (bound_and_sort_complete_coastlines scenario_rectangle
              [[(3, 5), (3, 12), (7, 12), (7, 5)]] initial_heap))
     \<noteq> Inr [[(3, 10), (3, 5), (7, 5), (7, 10)]]
   \<and> polygons (all_coastlines 12 scenario_rectangle [[(3, 5), (3, 12), (7, 12), (7, 5)]] initial_heap)
     \<noteq> Some (Inr [[(3, 10), (3, 5), (7, 5), (7, 10), (3, 10)]])"
  using top_crossing_clip top_crossing_run by simp

section \<open>The shared lists of the empty intersection map\<close>

text \<open>
  Claim C3 asks for fresh empty per-side lists at every start; the code shares the four
  lists of \<open>EMPTY_INTERSECTION_MAP\<close>. The copy of the dictionary holds the same
  addresses; after the clipper has run on the chain [(8,12),(8,3),(12,3)], the map for
  skipped intersections that the walker allocates holds the clipper's two events; the
  first run of the core returns one polygon, and a second run on the same input, in
  the state the first run left, fails with KeyError.
\<close>

theorem empty_map_lists_are_shared:
  "dict_copy EMPTY_INTERSECTION_MAP = EMPTY_INTERSECTION_MAP
   \<and> (case bound_and_sort_complete_coastlines scenario_rectangle [[(8, 12), (8, 3), (12, 3)]] initial_heap of
        Inl e \<Rightarrow> []
      | Inr r \<Rightarrow> map (\<lambda>s. events (snd (snd (snd r)))
                    (current_skipped_intersection_map
                       (initial_walker (TOP, 0) 0 0 (snd (snd (snd r)))) s)) all_sides)
     = [[\<lparr>point = (8, 10), is_entering = True, side = TOP, bounded_coastline_id = 0\<rparr>],
        [\<lparr>point = (10, 3), is_entering = False, side = RIGHT, bounded_coastline_id = 0\<rparr>], [], []]
   \<and> polygons (all_coastlines 12 scenario_rectangle [[(8, 12), (8, 3), (12, 3)]] initial_heap)
       = Some (Inr [[(10, 3), (10, 10), (8, 10), (8, 3), (10, 3)]])
   \<and> (case all_coastlines 12 scenario_rectangle [[(8, 12), (8, 3), (12, 3)]] initial_heap of
         Some (Inr r) \<Rightarrow>
           polygons (all_coastlines 12 scenario_rectangle [[(8, 12), (8, 3), (12, 3)]] (snd r))
       | _ \<Rightarrow> None)
       = Some (Inl KeyError)"
  apply (intro conjI)
     apply (simp add: dict_copy_def)
    apply code_simp
   apply code_simp
  apply code_simp
  done

section \<open>Chains that stay inside\<close>

lemma clip_segment_inside:
  "is_inside_map (fst seg) md \<Longrightarrow> is_inside_map (snd seg) md \<Longrightarrow>
   clip_segment md im cs seg =
     Inr (cs\<lparr>bounded_coastline_accumulator :=
               (if bounded_coastline_accumulator cs = [] then [fst seg]
                else bounded_coastline_accumulator cs) @ [snd seg]\<rparr>)"
  by (simp add: clip_segment_def find_segment_intersection_with_boundary_def Let_def)

lemma clip_segments_inside_started:
  "\<forall>s\<in>set segs. is_inside_map (fst s) md \<and> is_inside_map (snd s) md \<Longrightarrow>
   bounded_coastline_accumulator cs \<noteq> [] \<Longrightarrow>
   clip_segments md im cs segs =
     Inr (cs\<lparr>bounded_coastline_accumulator := bounded_coastline_accumulator cs @ map snd segs\<rparr>)"
proof (induction segs arbitrary: cs)
  case Nil
  then show ?case by simp
next
  case (Cons s segs)
  let ?cs' = "cs\<lparr>bounded_coastline_accumulator := bounded_coastline_accumulator cs @ [snd s]\<rparr>"
  from Cons.prems have st: "clip_segment md im cs s = Inr ?cs'"
    by (simp add: clip_segment_inside)
  from Cons.prems have "clip_segments md im ?cs' segs =
      Inr (?cs'\<lparr>bounded_coastline_accumulator := bounded_coastline_accumulator ?cs' @ map snd segs\<rparr>)"
    by (intro Cons.IH) simp_all
  with st show ?case by simp
qed

lemma clip_segments_inside:
  assumes "\<forall>s\<in>set (s # ss). is_inside_map (fst s) md \<and> is_inside_map (snd s) md"
    and "bounded_coastline_accumulator cs = []"
  shows "clip_segments md im cs (s # ss) =
     Inr (cs\<lparr>bounded_coastline_accumulator := fst s # map snd (s # ss)\<rparr>)"
proof -
  let ?cs' = "cs\<lparr>bounded_coastline_accumulator := [fst s, snd s]\<rparr>"
  from assms have st: "clip_segment md im cs s = Inr ?cs'"
    by (simp add: clip_segment_inside)
  from assms have "clip_segments md im ?cs' ss =
      Inr (?cs'\<lparr>bounded_coastline_accumulator := bounded_coastline_accumulator ?cs' @ map snd ss\<rparr>)"
    by (intro clip_segments_inside_started) simp_all
  with st show ?thesis by simp
qed

lemma zip_tl_shape:
  "2 \<le> length c \<Longrightarrow> \<exists>s ss. zip c (tl c) = s # ss \<and> fst s = hd c \<and> map snd (s # ss) = tl c"
proof -
  assume "2 \<le> length c"
  then obtain a b r where c: "c = a # b # r"
    by (cases c; cases "tl c") auto
  have "map snd (zip (a # b # r) (b # r)) = b # r"
    by (simp add: map_snd_zip_take)
  with c show ?thesis by auto
qed

lemma zip_tl_inside:
  assumes "\<forall>p\<in>set c. is_inside_map p md"
  shows "\<forall>s\<in>set (zip c (tl c)). is_inside_map (fst s) md \<and> is_inside_map (snd s) md"
proof
  fix s assume s: "s \<in> set (zip c (tl c))"
  have sub: "set (tl c) \<subseteq> set c" by (cases c) auto
  from s have "fst s \<in> set c" by (metis prod.collapse set_zip_leftD)
  moreover from s have "snd s \<in> set (tl c)" by (metis prod.collapse set_zip_rightD)
  ultimately show "is_inside_map (fst s) md \<and> is_inside_map (snd s) md"
    using assms sub by blast
qed

lemma clip_chain_inside:
  assumes "2 \<le> length c" "\<forall>p\<in>set c. is_inside_map p md"
  shows "clip_chain md im (cl, oc, h) c = Inr (cl @ [c], oc, h\<lparr>next_id := Suc (next_id h)\<rparr>)"
proof -
  from zip_tl_shape[OF assms(1)] obtain s ss where
    z: "zip c (tl c) = s # ss" "fst s = hd c" "map snd (s # ss) = tl c" by blast
  from assms(1) have ne: "c \<noteq> []" by auto
  have ins: "\<forall>x\<in>set (s # ss). is_inside_map (fst x) md \<and> is_inside_map (snd x) md"
    using zip_tl_inside[OF assms(2)] z(1) by simp
  have emp: "bounded_coastline_accumulator (new_clip_state h) = []"
    by (simp add: new_clip_state_def Let_def)
  have "hd c # tl c = c" using ne by simp
  then have "clip_segments md im (new_clip_state h) (zip c (tl c)) =
        Inr ((new_clip_state h)\<lparr>bounded_coastline_accumulator := c\<rparr>)"
    using clip_segments_inside[OF ins emp, of im] z by simp
  then show ?thesis using assms(1) ne
    by (simp add: clip_chain_def finish_chain_def new_clip_state_def Let_def
          generate_bounded_coastline_id_def)
qed

lemma clip_chains_inside:
  "\<forall>c\<in>set coasts. 2 \<le> length c \<and> (\<forall>p\<in>set c. is_inside_map p md) \<Longrightarrow>
   clip_chains md im (cl, oc, h) coasts =
     Inr (cl @ coasts, oc, h\<lparr>next_id := next_id h + length coasts\<rparr>)"
proof (induction coasts arbitrary: cl h)
  case Nil
  then show ?case by simp
next
  case (Cons c coasts)
  then show ?case by (simp add: clip_chain_inside)
qed

lemma sort_empty:
  "\<forall>a. events h a = [] \<Longrightarrow> events (sort_intersections im h) a = []"
  by (simp add: sort_intersections_def sort_side_def)

lemma sort_other_fields:
  "lines (sort_intersections im h) = lines h"
  "next_line (sort_intersections im h) = next_line h"
  "next_id (sort_intersections im h) = next_id h"
  by (simp_all add: sort_intersections_def sort_side_def)

lemma no_start_when_empty:
  "\<forall>a. events h a = [] \<Longrightarrow> find_intersection_map_starting_point im h = None"
  by (simp add: find_intersection_map_starting_point_def all_sides_def)

text \<open>
  Claim C9. The chains the clipper works on are those that
  \<open>convert_coastline_ways_into_continuous_lines\<close> returns, and it returns a chain only
  when it has at least two points. In a process that has just loaded the module, for
  every such input whose chains are closed and lie inside the rectangle (boundary
  included), the core returns exactly the input chains, in order, whatever the fuel;
  the clipper returns them as closed coastlines, with no open coastline and no event on
  any of the four sides. The chain [(2,2),(8,2),(8,8),(2,8),(2,2)] is the witness.
\<close>

theorem inside_closed_chains_verbatim:
  assumes "\<forall>c\<in>set coasts. 2 \<le> length c \<and> hd c = last c
             \<and> (\<forall>p\<in>set c. is_inside_map p
                           (md :: ('a::{linorder,zero,one,plus,minus,times,inverse}) MapDimensions))"
  shows "polygons (all_coastlines fuel md coasts initial_heap) = Some (Inr coasts)
       \<and> clipped (bound_and_sort_complete_coastlines md coasts initial_heap)
           = Inr (coasts, [], [[], [], [], []])"
proof -
  let ?h = "(initial_heap :: 'a heap)\<lparr>next_id := next_id (initial_heap :: 'a heap) + length coasts\<rparr>"
  let ?h1 = "sort_intersections (dict_copy EMPTY_INTERSECTION_MAP) ?h"
  from assms have a: "\<forall>c\<in>set coasts. 2 \<le> length c \<and> (\<forall>p\<in>set c. is_inside_map p md)" by blast
  have e: "\<forall>a. events ?h a = []" by (simp add: initial_heap_def)
  then have e1: "\<forall>a. events ?h1 a = []" using sort_empty by blast
  have v: "validate_intersection_map (dict_copy EMPTY_INTERSECTION_MAP) ?h1 = Inr True"
    using e1 by (simp add: validate_intersection_map_def all_events_def all_sides_def)
  have b: "bound_and_sort_complete_coastlines md coasts initial_heap
            = Inr (coasts, Map.empty, dict_copy EMPTY_INTERSECTION_MAP, ?h1)"
    using clip_chains_inside[OF a, of "dict_copy EMPTY_INTERSECTION_MAP" "[]" Map.empty initial_heap] v
    by (simp add: bound_and_sort_complete_coastlines_def Let_def)
  have p: "polygons (all_coastlines fuel md coasts initial_heap) = Some (Inr coasts)"
    using b no_start_when_empty[OF e1]
    by (simp add: all_coastlines_def polygons_def Let_def)
  have c: "clipped (bound_and_sort_complete_coastlines md coasts initial_heap)
           = Inr (coasts, [], [[], [], [], []])"
    using b e1 by (simp add: clipped_def all_sides_def)
  from p c show ?thesis by simp
qed

theorem inside_closed_chains_verbatim_witness:
  "polygons (all_coastlines 12 scenario_rectangle [[(2, 2), (8, 2), (8, 8), (2, 8), (2, 2)]] initial_heap)
     = Some (Inr [[(2, 2), (8, 2), (8, 8), (2, 8), (2, 2)]])
   \<and> clipped (bound_and_sort_complete_coastlines scenario_rectangle
        [[(2, 2), (8, 2), (8, 8), (2, 8), (2, 2)]] initial_heap)
       = Inr ([[(2, 2), (8, 2), (8, 8), (2, 8), (2, 2)]], [], [[], [], [], []])"
  using inside_closed_chains_verbatim [of "[[(2, 2), (8, 2), (8, 8), (2, 8), (2, 2)]]" scenario_rectangle 12]
  by (simp add: is_inside_map_def scenario_rectangle_def)

section \<open>The merge at the end of a chain\<close>

lemmas clip_eval = clip_chain_def clip_segment_def find_segment_intersection_with_boundary_def
  is_inside_map_def intersections_def top_candidate_def right_candidate_def bottom_candidate_def
  left_candidate_def sq_distance_def finish_chain_def generate_bounded_coastline_id_def
  append_event_def new_line_def with_id_def rewrite_ids_def rewrite_side_def rewrite_id_def
  all_sides_def EMPTY_INTERSECTION_MAP_def dict_copy_def initial_heap_def scenario_rectangle_def
  Let_def new_clip_state_def

lemma rewrite_id_idem: "rewrite_id old new (rewrite_id old new e) = rewrite_id old new e"
  by (simp add: rewrite_id_def)

lemma rewrite_id_idem_map:
  "map (rewrite_id old new) (map (rewrite_id old new) xs) = map (rewrite_id old new) xs"
  by (simp add: rewrite_id_idem)



lemma closed_top_crossing_merges:
  "clipped (bound_and_sort_complete_coastlines scenario_rectangle
              [[(3, 5), (3, 12), (7, 12), (7, 5), (3, 5)]] initial_heap)
     = Inr ([],
            [(0, [(7, 10), (7, 5), (3, 5), (3, 10)])],
            [[\<lparr>point = (3, 10), is_entering = False, side = TOP, bounded_coastline_id = 0\<rparr>,
              \<lparr>point = (7, 10), is_entering = True, side = TOP, bounded_coastline_id = 0\<rparr>],
             [], [], []])"
  by code_simp

text \<open>
  Claim C7 says that a chain that crossed the boundary and ends with a non-empty
  accumulator whose last point is the chain's first point is merged. The code does so
  when a bounded coastline has been stored before (\<open>closed_top_crossing_merges\<close>: one
  open coastline, both events under its id). When none has been stored it fails: for
  the chain [(12,5),(5,10),(12,5)] both crossings count as entering, so after the loop
  the boundary is crossed, the accumulator [(5,10),(12,5)] ends with the chain's first
  point and the list of stored coastlines is empty; the merge branch reads its first
  entry and the clipper raises IndexError.
\<close>

theorem merge_without_first_subchain_fails:
  "(case clip_segments scenario_rectangle EMPTY_INTERSECTION_MAP (new_clip_state initial_heap)
           (zip [(12, 5), (5, 10), (12, 5)] (tl [(12, 5), (5, 10), (12, 5)])) of
      Inl e \<Rightarrow> False
    | Inr cs \<Rightarrow> does_coastline_cross_boundary cs
        \<and> bounded_coastline_accumulator cs = [(5, 10), (12, 5)]
        \<and> last (bounded_coastline_accumulator cs) = hd [(12, 5), (5, 10), (12, 5)]
        \<and> bounded_coastlines_from_complete_coastline cs = [])
   \<and> map_sum id fst (clip_chain scenario_rectangle EMPTY_INTERSECTION_MAP
         ([], Map.empty, initial_heap) [(12, 5), (5, 10), (12, 5)]) = Inl IndexError
   \<and> polygons (all_coastlines 12 scenario_rectangle [[(12, 5), (5, 10), (12, 5)]] initial_heap)
       = Some (Inl IndexError)"
  by (simp add: clip_eval bound_and_sort_complete_coastlines_def all_coastlines_def polygons_def)

section \<open>What the walker does to the open coastlines\<close>

text \<open>
  The claim C5 as stated fails: the accumulator starts as the very list stored in
  \<open>open_coastlines\<close>, and the corner and the closing point are inserted into it. For the
  chain [(8,12),(8,3),(12,3)] the list under id 0 is [(8,10),(8,3),(10,3)] when the
  clipper returns and [(10,3),(10,10),(8,10),(8,3),(10,3)] when the walker returns.
\<close>

theorem walker_changes_open_coastline:
  "(case bound_and_sort_complete_coastlines scenario_rectangle [[(8, 12), (8, 3), (12, 3)]] initial_heap of
      Inl e \<Rightarrow> False
    | Inr b \<Rightarrow>
        (case join_open_coastlines 12 (fst (snd b)) scenario_rectangle (fst (snd (snd b))) (TOP, 0)
                (snd (snd (snd b))) of
           Some (Inr r) \<Rightarrow>
             fst (snd b) 0 = Some 0
             \<and> lines (snd (snd (snd b))) 0 = [(8, 10), (8, 3), (10, 3)]
             \<and> lines (snd r) 0 = [(10, 3), (10, 10), (8, 10), (8, 3), (10, 3)]
         | _ \<Rightarrow> False))"
  by code_simp

lemma only_prepended_refl: "only_prepended h h"
  by (simp add: only_prepended_def)

lemma only_prepended_trans:
  "only_prepended h1 h2 \<Longrightarrow> only_prepended h2 h3 \<Longrightarrow> only_prepended h1 h3"
  unfolding only_prepended_def
  by (meson le_trans less_le_trans suffix_order.trans)

lemma only_prepended_insert_front:
  "only_prepended h (insert_front a p h)"
  by (simp add: only_prepended_def insert_front_def suffix_Cons)

lemma only_prepended_new_line:
  "only_prepended h (snd (new_line l h))"
  by (simp add: only_prepended_def new_line_def)

lemma only_prepended_append_event:
  "only_prepended h (append_event a e h)"
  by (simp add: only_prepended_def append_event_def)

lemma new_line_fresh:
  "fst (new_line l h) < next_line (snd (new_line l h))"
  by (simp add: new_line_def)

lemma only_prepended_bound:
  "only_prepended h h' \<Longrightarrow> a < next_line h \<Longrightarrow> a < next_line h'"
  by (simp add: only_prepended_def)

lemma end_of_side_prepends:
  "only_prepended (wheap w) (wheap (end_of_side md w))
   \<and> current_open_coastline_accumulator (end_of_side md w) = current_open_coastline_accumulator w"
  by (simp add: end_of_side_def only_prepended_insert_front only_prepended_refl)

lemma looking_for_exit_prepends:
  assumes "looking_for_exit w ci c = Inr w'"
    and "current_open_coastline_accumulator w < next_line (wheap w)"
  shows "only_prepended (wheap w) (wheap w')
       \<and> current_open_coastline_accumulator w' < next_line (wheap w')"
proof -
  let ?h1 = "insert_front (current_open_coastline_accumulator w)
               (last (lines (wheap w) c)) (wheap w)"
  have a: "only_prepended (wheap w) (snd (new_line [] ?h1))"
    using only_prepended_trans[OF only_prepended_insert_front only_prepended_new_line] .
  show ?thesis
    using assms a
    by (auto simp: looking_for_exit_def Let_def only_prepended_new_line new_line_fresh
          split: if_splits option.splits)
qed

lemma looking_for_enter_prepends:
  assumes "looking_for_enter w ci c = Inr w'"
    and "current_open_coastline_accumulator w < next_line (wheap w)"
    and "c < next_line (wheap w)"
  shows "only_prepended (wheap w) (wheap w')
       \<and> current_open_coastline_accumulator w' < next_line (wheap w')"
  using assms
  by (auto simp: looking_for_enter_def only_prepended_def append_event_def
        split: if_splits option.splits)

lemma loop_body_prepends:
  assumes "loop_body oc im md w = Inr w'"
    and "current_open_coastline_accumulator w < next_line (wheap w)"
    and "\<forall>a\<in>ran oc. a < next_line (wheap w)"
  shows "only_prepended (wheap w) (wheap w')
       \<and> current_open_coastline_accumulator w' < next_line (wheap w')"
proof (cases "length (events (wheap w) (im (current_side w))) \<le> current_index w")
  case True
  with assms(1) have "w' = end_of_side md w" by (simp add: loop_body_def)
  with end_of_side_prepends[of w md] assms(2) show ?thesis
    by (auto dest: only_prepended_bound)
next
  case False
  let ?ci = "events (wheap w) (im (current_side w)) ! current_index w"
  from False assms(1) obtain c where c: "oc (bounded_coastline_id ?ci) = Some c"
    by (auto simp: loop_body_def Let_def split: option.splits)
  then have cb: "c < next_line (wheap w)" using assms(3) by (auto simp: ran_def)
  show ?thesis
  proof (cases "looking_for w")
    case LookExit
    with False c assms(1) have "looking_for_exit w ?ci c = Inr w'"
      by (simp add: loop_body_def Let_def)
    then show ?thesis using looking_for_exit_prepends assms(2) by blast
  next
    case LookEnter
    with False c assms(1) have "looking_for_enter w ?ci c = Inr w'"
      by (simp add: loop_body_def Let_def)
    then show ?thesis using looking_for_enter_prepends assms(2) cb by blast
  qed
qed

lemma walk_loop_prepends:
  "walk_loop n oc im sp md w = Some (Inr w') \<Longrightarrow>
   current_open_coastline_accumulator w < next_line (wheap w) \<Longrightarrow>
   \<forall>a\<in>ran oc. a < next_line (wheap w) \<Longrightarrow>
   only_prepended (wheap w) (wheap w')"
proof (induction n arbitrary: w)
  case 0
  then show ?case by simp
next
  case (Suc n)
  show ?case
  proof (cases "current_side w \<noteq> fst sp \<or> current_index w \<noteq> snd sp")
    case False
    with Suc.prems(1) have "w' = w" by simp
    then show ?thesis by (simp add: only_prepended_refl)
  next
    case True
    with Suc.prems(1) obtain w1 where
      b: "loop_body oc im md w = Inr w1" and r: "walk_loop n oc im sp md w1 = Some (Inr w')"
      by (auto split: sum.splits)
    from loop_body_prepends[OF b Suc.prems(2) Suc.prems(3)]
    have p: "only_prepended (wheap w) (wheap w1)"
      and a: "current_open_coastline_accumulator w1 < next_line (wheap w1)" by auto
    from p Suc.prems(3) have "\<forall>a\<in>ran oc. a < next_line (wheap w1)"
      by (auto dest: only_prepended_bound)
    from Suc.IH[OF r a this] p show ?thesis by (rule only_prepended_trans[rotated])
  qed
qed

lemma process_skipped_prepends:
  assumes rec: "\<And>m sp h r. rec m sp h = Some (Inr r) \<Longrightarrow> \<forall>a\<in>ran oc. a < next_line h
                  \<Longrightarrow> only_prepended h (snd r)"
  shows "process_skipped rec ms ncc h = Some (Inr r) \<Longrightarrow> \<forall>a\<in>ran oc. a < next_line h
           \<Longrightarrow> only_prepended h (snd r)"
proof (induction ms arbitrary: ncc h)
  case Nil
  then show ?case by (auto simp: only_prepended_refl)
next
  case (Cons m ms)
  show ?case
  proof (cases "find_intersection_map_starting_point m h")
    case None
    with Cons.prems(1) have "process_skipped rec ms ncc h = Some (Inr r)" by simp
    from Cons.IH[OF this Cons.prems(2)] show ?thesis .
  next
    case (Some sp)
    with Cons.prems(1) obtain r1 where
      r1: "rec m sp h = Some (Inr r1)"
      and rest: "process_skipped rec ms (ncc @ fst r1) (snd r1) = Some (Inr r)"
      by (auto split: option.splits sum.splits)
    from rec[OF r1 Cons.prems(2)] have p: "only_prepended h (snd r1)" .
    with Cons.prems(2) have "\<forall>a\<in>ran oc. a < next_line (snd r1)"
      by (auto dest: only_prepended_bound)
    from Cons.IH[OF rest this] p show ?thesis by (rule only_prepended_trans[rotated])
  qed
qed

lemma join_prepends:
  "join_open_coastlines n oc md im sp h = Some (Inr r) \<Longrightarrow> \<forall>a\<in>ran oc. a < next_line h
     \<Longrightarrow> only_prepended h (snd r)"
proof (induction n arbitrary: im sp h r)
  case 0
  then show ?case by simp
next
  case (Suc n)
  let ?id = "bounded_coastline_id (events h (im (fst sp)) ! snd sp)"
  from Suc.prems(1) obtain a w where
    a: "oc ?id = Some a"
    and w: "walk_loop n oc im sp md (initial_walker sp ?id a h) = Some (Inr w)"
    and ps: "process_skipped (join_open_coastlines n oc md) (skipped_intersections w)
               (new_closed_coastlines w) (wheap w) = Some (Inr r)"
    by (auto simp: Let_def split: if_splits option.splits sum.splits)
  from a Suc.prems(2) have ab: "a < next_line h" by (auto simp: ran_def)
  have "only_prepended (wheap (initial_walker sp ?id a h)) (wheap w)"
    by (rule walk_loop_prepends[OF w]) (use ab Suc.prems(2) in \<open>simp_all add: initial_walker_def\<close>)
  then have p: "only_prepended h (wheap w)" by (simp add: initial_walker_def)
  with Suc.prems(2) have b: "\<forall>a\<in>ran oc. a < next_line (wheap w)"
    by (auto dest: only_prepended_bound)
  have "only_prepended (wheap w) (snd r)"
    by (rule process_skipped_prepends[where rec = "join_open_coastlines n oc md" and oc = oc, OF _ ps b])
       (rule Suc.IH)
  with p show ?case by (rule only_prepended_trans)
qed

text \<open>
  Claim C5, amended. When \<open>join_open_coastlines\<close> returns, every coordinate list stored
  in its \<open>open_coastlines\<close> argument ends with the sequence it held at the call: the
  walker only puts points in front of it. (The lists of \<open>open_coastlines\<close> are allocated:
  their addresses lie below \<open>next_line\<close>.)
\<close>

theorem walker_only_prepends:
  assumes "join_open_coastlines fuel oc md im sp h = Some (Inr r)"
    and "\<forall>a\<in>ran oc. a < next_line h"
  shows "\<forall>k a. oc k = Some a \<longrightarrow> suffix (lines h a) (lines (snd r) a)"
  using join_prepends[OF assms] assms(2)
  by (auto simp: only_prepended_def ran_def)

lemmas sort_eval = bound_and_sort_complete_coastlines_def sort_intersections_def sort_side_def
  validate_intersection_map_def all_events_def

lemma corner_wrap_clip:
  "\<exists>h. bound_and_sort_complete_coastlines scenario_rectangle [[(8, 12), (8, 3), (12, 3)]] initial_heap
         = Inr ([], [0 \<mapsto> 0], EMPTY_INTERSECTION_MAP, h)
       \<and> next_line h = 1 \<and> lines h 0 = [(8, 10), (8, 3), (10, 3)]
       \<and> find_intersection_map_starting_point EMPTY_INTERSECTION_MAP h = Some (TOP, 0)"
  by (simp add: clip_eval sort_eval find_intersection_map_starting_point_def)

theorem walker_only_prepends_witness:
  "\<exists>h r. bound_and_sort_complete_coastlines scenario_rectangle [[(8, 12), (8, 3), (12, 3)]] initial_heap
         = Inr ([], [0 \<mapsto> 0], EMPTY_INTERSECTION_MAP, h)
     \<and> join_open_coastlines 12 [0 \<mapsto> 0] scenario_rectangle EMPTY_INTERSECTION_MAP (TOP, 0) h
         = Some (Inr r)
     \<and> lines h 0 = [(8, 10), (8, 3), (10, 3)]
     \<and> suffix [(8, 10), (8, 3), (10, 3)] (lines (snd r) 0)"
proof -
  from corner_wrap_clip obtain h where
    b: "bound_and_sort_complete_coastlines scenario_rectangle [[(8, 12), (8, 3), (12, 3)]] initial_heap
         = Inr ([], [0 \<mapsto> 0], EMPTY_INTERSECTION_MAP, h)"
    and n: "next_line h = 1" and l: "lines h 0 = [(8, 10), (8, 3), (10, 3)]"
    and sp: "find_intersection_map_starting_point EMPTY_INTERSECTION_MAP h = Some (TOP, 0)"
    by blast
  have "polygons (all_coastlines 12 scenario_rectangle [[(8, 12), (8, 3), (12, 3)]] initial_heap)
     = Some (Inr [[(10, 3), (10, 10), (8, 10), (8, 3), (10, 3)]])"
    by (rule corner_wrap_run)
  with b have "\<exists>sp r. join_open_coastlines 12 [0 \<mapsto> 0] scenario_rectangle EMPTY_INTERSECTION_MAP sp h
         = Some (Inr r) \<and> find_intersection_map_starting_point EMPTY_INTERSECTION_MAP h = Some sp"
    by (auto simp: all_coastlines_def polygons_def Let_def split: option.splits sum.splits)
  with sp obtain r where
    j: "join_open_coastlines 12 [0 \<mapsto> 0] scenario_rectangle EMPTY_INTERSECTION_MAP (TOP, 0) h
         = Some (Inr r)" by auto
  have "\<forall>a\<in>ran [0 \<mapsto> 0::nat]. a < next_line h" using n by simp
  from walker_only_prepends [OF j this]
  have "[0 \<mapsto> 0::nat] (0::nat) = Some 0 \<longrightarrow> suffix (lines h 0) (lines (snd r) 0)" by blast
  with l have "suffix [(8, 10), (8, 3), (10, 3)] (lines (snd r) 0)" by simp
  with b j l show ?thesis by blast
qed

section \<open>A walk that never returns\<close>

lemma stuck_step:
  assumes "stuck e w" and "oc (bounded_coastline_id e) = Some a"
  shows "\<exists>w'. loop_body oc EMPTY_INTERSECTION_MAP md w = Inr w' \<and> stuck e w'"
proof -
  let ?xs = "events (wheap w) (EMPTY_INTERSECTION_MAP TOP)"
  let ?i = "current_index w"
  from assms(1) have i: "?i < length ?xs" and d: "set (drop ?i ?xs) \<subseteq> {e}"
    by (auto simp: stuck_def)
  from i have "drop ?i ?xs = ?xs ! ?i # drop (Suc ?i) ?xs" by (simp add: Cons_nth_drop_Suc)
  with d have cur: "?xs ! ?i = e" and d': "set (drop (Suc ?i) ?xs) \<subseteq> {e}" by auto
  from assms(1) obtain x where x: "exit_id_to_look_for w = Some x" by (auto simp: stuck_def)
  show ?thesis
    using assms i cur d' x
    by (auto simp: stuck_def loop_body_def looking_for_enter_def append_event_def Let_def)
qed

lemma walk_stuck:
  "stuck e w \<Longrightarrow> oc (bounded_coastline_id e) = Some a \<Longrightarrow> snd sp < 3 \<Longrightarrow>
   walk_loop n oc EMPTY_INTERSECTION_MAP sp md w = None"
proof (induction n arbitrary: w)
  case 0
  then show ?case by simp
next
  case (Suc n)
  from stuck_step[where e = e and w = w and oc = oc and a = a and md = md] Suc.prems(1,2)
  obtain w' where
    s: "loop_body oc EMPTY_INTERSECTION_MAP md w = Inr w'" and st: "stuck e w'" by blast
  from Suc.prems(1,3) have "current_index w \<noteq> snd sp" by (auto simp: stuck_def)
  moreover have "walk_loop n oc EMPTY_INTERSECTION_MAP sp md w' = None"
    using st Suc.prems(2,3) by (rule Suc.IH)
  ultimately show ?case using s by simp
qed

lemma deferring_clip:
  "\<exists>oc h. bound_and_sort_complete_coastlines scenario_rectangle deferring_input initial_heap
         = Inr ([], oc, EMPTY_INTERSECTION_MAP, h)
       \<and> oc 2 = Some 1 \<and> oc 3 = Some 2 \<and> oc 5 = Some 3
       \<and> events h (EMPTY_INTERSECTION_MAP TOP) =
           [\<lparr>point = (1, 10), is_entering = False, side = TOP, bounded_coastline_id = 0\<rparr>,
            \<lparr>point = (2, 10), is_entering = True, side = TOP, bounded_coastline_id = 2\<rparr>,
            \<lparr>point = (3, 10), is_entering = False, side = TOP, bounded_coastline_id = 3\<rparr>,
            \<lparr>point = (4, 10), is_entering = True, side = TOP, bounded_coastline_id = 5\<rparr>]"
  by (simp add: clip_eval sort_eval deferring_input_def)

lemma deferring_first_step:
  assumes "events h (EMPTY_INTERSECTION_MAP TOP) =
           [\<lparr>point = (1, 10), is_entering = False, side = TOP, bounded_coastline_id = 0\<rparr>,
            \<lparr>point = (2, 10), is_entering = True, side = TOP, bounded_coastline_id = 2\<rparr>,
            \<lparr>point = (3, 10), is_entering = False, side = TOP, bounded_coastline_id = 3\<rparr>,
            \<lparr>point = (4, 10), is_entering = True, side = TOP, bounded_coastline_id = 5\<rparr>]"
    and "oc 3 = Some x"
  shows "\<exists>w1. loop_body oc EMPTY_INTERSECTION_MAP md (initial_walker (TOP, 1) 2 y h) = Inr w1
      \<and> stuck \<lparr>point = (4, 10), is_entering = True, side = TOP, bounded_coastline_id = 5\<rparr> w1"
  using assms
  by (simp add: loop_body_def looking_for_exit_def initial_walker_def new_line_def Let_def
        stuck_def dict_copy_def)

text \<open>
  Claim C2 says that the walk always comes back to its starting point. On the input
  \<open>deferring_input\<close> it does not: the walker starts at the entering event at (2,10),
  meets the exit of another coastline at (3,10), then the entering event at (4,10),
  which it defers by appending it to the map for skipped intersections, whose TOP list
  is the list it is walking. The next event is the one just appended, and so on: for
  every amount of fuel the run ends without a result.
\<close>

theorem deferred_event_walk_never_returns:
  "all_coastlines fuel scenario_rectangle deferring_input initial_heap = None"
proof -
  let ?e = "\<lparr>point = (4, 10), is_entering = True, side = TOP, bounded_coastline_id = 5\<rparr>"
  from deferring_clip obtain oc h where
    b: "bound_and_sort_complete_coastlines scenario_rectangle deferring_input initial_heap
         = Inr ([], oc, EMPTY_INTERSECTION_MAP, h)"
    and oc: "oc 2 = Some 1" "oc 3 = Some 2" "oc 5 = Some 3"
    and ev: "events h (EMPTY_INTERSECTION_MAP TOP) =
           [\<lparr>point = (1, 10), is_entering = False, side = TOP, bounded_coastline_id = 0\<rparr>,
            \<lparr>point = (2, 10), is_entering = True, side = TOP, bounded_coastline_id = 2\<rparr>,
            \<lparr>point = (3, 10), is_entering = False, side = TOP, bounded_coastline_id = 3\<rparr>,
            ?e]" by blast
  have sp: "find_intersection_map_starting_point EMPTY_INTERSECTION_MAP h = Some (TOP, 1)"
    using ev by (simp add: find_intersection_map_starting_point_def all_sides_def)
  have w: "walk_loop n oc EMPTY_INTERSECTION_MAP (TOP, 1) scenario_rectangle
             (initial_walker (TOP, 1) 2 1 h) = None" for n
  proof (cases n)
    case 0
    then show ?thesis by simp
  next
    case (Suc m)
    from deferring_first_step[where h = h and oc = oc and x = 2 and md = scenario_rectangle
           and y = 1] ev oc(2)
    obtain w1 where
      s: "loop_body oc EMPTY_INTERSECTION_MAP scenario_rectangle (initial_walker (TOP, 1) 2 1 h) = Inr w1"
      and st: "stuck ?e w1" by blast
    have "walk_loop m oc EMPTY_INTERSECTION_MAP (TOP, 1) scenario_rectangle w1 = None"
      using walk_stuck[where e = ?e and w = w1 and oc = oc and a = 3 and sp = "(TOP, 1)" and n = m
              and md = scenario_rectangle] st oc(3)
      by simp
    with s Suc show ?thesis by (simp add: initial_walker_def)
  qed
  have j: "join_open_coastlines fuel oc scenario_rectangle EMPTY_INTERSECTION_MAP (TOP, 1) h = None"
  proof (cases fuel)
    case 0
    then show ?thesis by simp
  next
    case (Suc n)
    then show ?thesis using ev oc(1) w[of n] by simp
  qed
  show ?thesis using b sp j by (simp add: all_coastlines_def)
qed

section \<open>Events per bounded coastline\<close>





lemma next_id_append [simp]: "next_id (append_event a e h) = next_id h"
  by (simp add: append_event_def)

lemma all_events_next_id [simp]: "all_events im (h\<lparr>next_id := n\<rparr>) = all_events im h"
  by (simp add: all_events_def)

lemma exit_count_next_id [simp]: "exit_count k im (h\<lparr>next_id := n\<rparr>) = exit_count k im h"
  by (simp add: exit_count_def)









lemma next_id_rewrite_ids [simp]: "next_id (rewrite_ids old new im h) = next_id h"
  by (simp add: rewrite_ids_def rewrite_side_def all_sides_def)





lemma publish_keeps [simp]:
  "events (snd (publish bs oc h)) = events h"
  "next_id (snd (publish bs oc h)) = next_id h"
  by (induction bs arbitrary: oc h) (simp_all add: new_line_def Let_def)














end
